theory Spec2Isabelle
  imports Main "HOL-Library.Sublist" "HOL-Library.AList" "HOL-Library.Char_ord"
    "HOL-Library.List_Lexorder"
begin

section \<open>The manifest package of usernet: data model\<close>

text \<open>
  The development follows \<^verbatim>\<open>src/manifest/manifest.go\<close>. Four things of the Go runtime
  and library are not code of the package and are made explicit:
  \<^item> JSON texts. A \<^verbatim>\<open>json.RawMessage\<close> is modelled by its syntax: \<open>None\<close> for bytes that
    are no JSON text (the nil and the empty message included), \<open>Some v\<close> for a JSON text
    with syntax tree \<open>v\<close>. Object members keep their order and their duplicates, and a
    number is the literal as it is written. Whitespace is not modelled.
  \<^item> The values that \<^verbatim>\<open>encoding/json\<close> decodes into an \<^verbatim>\<open>interface{}\<close> (a \<^verbatim>\<open>float64\<close> for
    a number, a Go map for an object, ...) are the type variable \<open>'v\<close>. Decoding a JSON
    value into such a value, which can fail, and encoding it again are the fields
    \<open>jsonDecode\<close> and \<open>jsonEncode\<close> of the record \<open>library\<close>; nothing is assumed of them.
  \<^item> The order in which a \<^verbatim>\<open>range\<close> statement visits the keys of a Go map. The language
    leaves it open and the runtime varies it from one loop to the next, so the loop over
    \<^verbatim>\<open>UserAgentCases\<close> takes the visiting order as an argument.
  \<^item> The functions of \<^verbatim>\<open>encoding/json\<close> on whole manifests and of \<^verbatim>\<open>html/template\<close>,
    which are fields of the record \<open>library\<close>, and the file system, which is the record
    \<open>FS\<close>.
\<close>

datatype jvalue =
    JNull
  | JBool bool
  | JNumber string
  | JString string
  | JArray "jvalue list"
  | JObject "(string \<times> jvalue) list"

type_synonym RawMessage = "jvalue option"

type_synonym bytes = string

text \<open>The errors and the one runtime panic that the package can run into.\<close>

datatype error =
    SyntaxError          \<comment> \<open>\<^verbatim>\<open>json.Unmarshal\<close>: the input is no JSON text\<close>
  | UnmarshalTypeError   \<comment> \<open>\<^verbatim>\<open>json.Unmarshal\<close>: a JSON value that does not fit a Go map\<close>
  | NilMapPanic          \<comment> \<open>runtime panic: assignment to entry in nil map\<close>
  | ErrNotExist          \<comment> \<open>\<^verbatim>\<open>os.ReadFile\<close>: no such file\<close>
  | ErrIO                \<comment> \<open>any other error of \<^verbatim>\<open>os.ReadFile\<close> or \<^verbatim>\<open>os.WriteFile\<close>\<close>
  | MarshalError         \<comment> \<open>\<^verbatim>\<open>json.MarshalIndent\<close> failed\<close>
  | TemplateFileError    \<comment> \<open>"template file error: ..."\<close>
  | TemplateCompileError \<comment> \<open>"template compilation error: ..."\<close>
  | TemplateExecError    \<comment> \<open>\<^verbatim>\<open>Execute\<close> of a compiled template failed\<close>

record 't ResponseTemplate =
  ContentType :: string
  Template :: string
  TemplateFile :: string
  compiled :: "'t option"

record 't ServiceManifest =
  DefaultResponse :: RawMessage
  UserAgentCases :: "string \<rightharpoonup> RawMessage"
  CountryCases :: "string \<rightharpoonup> RawMessage"
  Templates :: "'t ResponseTemplate list"

record RequestContext =
  UserAgent :: string
  AcceptTypes :: "string list"
  Headers :: "string \<rightharpoonup> string list"
  PreferredType :: string
  Country :: string

text \<open>
  The cache of the manager holds pointers in the source; the model stores the manifest a
  pointer leads to. The mutex is not modelled: every operation runs alone.
\<close>

record 't ManifestManager =
  manifests :: "string \<rightharpoonup> 't ServiceManifest"
  basePath :: string

definition NewManifestManager :: "string \<Rightarrow> 't ManifestManager" where
  "NewManifestManager bp = \<lparr>manifests = Map.empty, basePath = bp\<rparr>"

subsection \<open>Strings\<close>

text \<open>\<^verbatim>\<open>strings.Contains(s, substr)\<close>: \<open>substr\<close> occurs in \<open>s\<close> as a contiguous block.\<close>

primrec contains :: "string \<Rightarrow> string \<Rightarrow> bool" where
  "contains [] substr = (substr = [])"
| "contains (c # cs) substr = (prefix substr (c # cs) \<or> contains cs substr)"

definition TrimPrefix :: "string \<Rightarrow> string \<Rightarrow> string" where
  "TrimPrefix s p = (if prefix p s then drop (length p) s else s)"

text \<open>\<^verbatim>\<open>strings.ReplaceAll\<close> with a one-byte pattern and a one-byte replacement.\<close>

definition ReplaceAll :: "string \<Rightarrow> char \<Rightarrow> char \<Rightarrow> string" where
  "ReplaceAll s old new = map (\<lambda>c. if c = old then new else c) s"

definition sanitizeFilename :: "string \<Rightarrow> string" where
  "sanitizeFilename serviceURL =
     ReplaceAll (ReplaceAll (TrimPrefix (TrimPrefix serviceURL ''https://'') ''http://'')
       CHR ''/'' CHR ''_'') CHR '':'' CHR ''_''"

subsection \<open>The file system\<close>

text \<open>
  \<^verbatim>\<open>filepath.Join(m.basePath, name)\<close> is kept as the pair of the directory and the name.
  A file is absent or holds bytes; reading and writing can fail for other reasons
  (permissions, a missing directory), which the two predicates record. A failed write
  leaves the stored bytes as they were.
\<close>

type_synonym path = "string \<times> string"

record FS =
  node :: "path \<rightharpoonup> bytes"
  readFails :: "path \<Rightarrow> bool"
  writeFails :: "path \<Rightarrow> bool"

definition ReadFile :: "FS \<Rightarrow> path \<Rightarrow> error + bytes" where
  "ReadFile fs p =
     (if readFails fs p then Inl ErrIO
      else case node fs p of None \<Rightarrow> Inl ErrNotExist | Some data \<Rightarrow> Inr data)"

definition WriteFile :: "FS \<Rightarrow> path \<Rightarrow> bytes \<Rightarrow> error + FS" where
  "WriteFile fs p data =
     (if writeFails fs p then Inl ErrIO else Inr (fs\<lparr>node := (node fs)(p \<mapsto> data)\<rparr>))"

definition manifestPath :: "'t ManifestManager \<Rightarrow> string \<Rightarrow> path" where
  "manifestPath m serviceURL = (basePath m, sanitizeFilename serviceURL @ ''.json'')"

subsection \<open>The library functions the package calls\<close>

text \<open>
  \<open>jsonDecode\<close> is \<^verbatim>\<open>json.Unmarshal\<close> of one JSON value into an \<^verbatim>\<open>interface{}\<close>, also
  on the member values of an object that is decoded into a \<^verbatim>\<open>map[string]interface{}\<close>;
  \<open>jsonEncode\<close> is \<^verbatim>\<open>json.Marshal\<close> of such a value, which has no error on values
  that came out of \<^verbatim>\<open>json.Unmarshal\<close>.
\<close>

record ('t, 'v) library =
  jsonUnmarshalManifest :: "bytes \<Rightarrow> error + 't ServiceManifest"
  jsonMarshalIndent :: "'t ServiceManifest \<Rightarrow> error + bytes"
  jsonDecode :: "jvalue \<Rightarrow> error + 'v"
  jsonEncode :: "'v \<Rightarrow> jvalue"
  templateParse :: "string \<Rightarrow> error + 't"
  templateExecute :: "'t \<Rightarrow> 'v \<Rightarrow> error + string"

section \<open>Content negotiation\<close>

fun scanAccept :: "string list \<Rightarrow> string" where
  "scanAccept [] = ''application/json''"
| "scanAccept (typ # rest) =
     (if contains typ ''text/html'' then ''text/html''
      else if contains typ ''text/plain'' then ''text/plain''
      else if contains typ ''application/json'' then ''application/json''
      else scanAccept rest)"

definition determineResponseType :: "string list \<Rightarrow> string" where
  "determineResponseType accept =
     (if length accept = 0 then ''application/json'' else scanAccept accept)"

section \<open>Merging and matching\<close>

text \<open>
  \<^verbatim>\<open>json.Unmarshal(data, &m)\<close> with \<open>m\<close> a nil \<^verbatim>\<open>map[string]interface{}\<close>. The JSON text
  \<^verbatim>\<open>null\<close> leaves the map nil (\<open>None\<close>); every JSON value other than an object is a
  type error. The members of an object are decoded in their order, each value by
  \<open>jsonDecode\<close>; a value that does not decode makes the call fail, and a later duplicate
  of a key overwrites the earlier one. A Go map is an association list with distinct
  keys.
\<close>

type_synonym 'v gomap = "(string \<times> 'v) list option"

fun decodeObject ::
  "('t, 'v) library \<Rightarrow> (string \<times> jvalue) list \<Rightarrow> (string \<times> 'v) list \<Rightarrow>
     error + (string \<times> 'v) list" where
  "decodeObject lib [] m = Inr m"
| "decodeObject lib ((k, v) # kvs) m =
     (case jsonDecode lib v of
        Inl err \<Rightarrow> Inl err
      | Inr x \<Rightarrow> decodeObject lib kvs (AList.update k x m))"

fun unmarshalMap :: "('t, 'v) library \<Rightarrow> RawMessage \<Rightarrow> error + 'v gomap" where
  "unmarshalMap lib None = Inl SyntaxError"
| "unmarshalMap lib (Some JNull) = Inr None"
| "unmarshalMap lib (Some (JObject kvs)) =
     (case decodeObject lib kvs [] of Inl err \<Rightarrow> Inl err | Inr m \<Rightarrow> Inr (Some m))"
| "unmarshalMap lib (Some v) = Inl UnmarshalTypeError"

text \<open>
  \<^verbatim>\<open>json.Marshal\<close> of a \<^verbatim>\<open>map[string]interface{}\<close>: \<^verbatim>\<open>null\<close> for the nil map, otherwise
  the object with the keys sorted and every value encoded by \<open>jsonEncode\<close>.
\<close>

fun marshalMap :: "('t, 'v) library \<Rightarrow> 'v gomap \<Rightarrow> RawMessage" where
  "marshalMap lib None = Some JNull"
| "marshalMap lib (Some m) =
     Some (JObject (map (\<lambda>(k, x). (k, jsonEncode lib x)) (sort_key fst m)))"

text \<open>
  The loop \<^verbatim>\<open>for k, v := range overrideMap { defaultMap[k] = v }\<close>. Ranging over a nil
  or empty map runs no iteration; an assignment into the nil map panics.
\<close>

fun mergeMaps :: "'v gomap \<Rightarrow> (string \<times> 'v) list \<Rightarrow> error + 'v gomap" where
  "mergeMaps defaultMap [] = Inr defaultMap"
| "mergeMaps None ((k, v) # kvs) = Inl NilMapPanic"
| "mergeMaps (Some m) ((k, v) # kvs) = mergeMaps (Some (AList.update k v m)) kvs"

definition mergeResponses ::
  "('t, 'v) library \<Rightarrow> RawMessage \<Rightarrow> RawMessage \<Rightarrow> error + RawMessage" where
  "mergeResponses lib defaultResp overrideResp =
     (case unmarshalMap lib defaultResp of
        Inl err \<Rightarrow> Inl err
      | Inr defaultMap \<Rightarrow>
          (case unmarshalMap lib overrideResp of
             Inl err \<Rightarrow> Inl err
           | Inr overrideMap \<Rightarrow>
               (case mergeMaps defaultMap (case overrideMap of None \<Rightarrow> [] | Some kvs \<Rightarrow> kvs) of
                  Inl err \<Rightarrow> Inl err
                | Inr merged \<Rightarrow> Inr (marshalMap lib merged))))"

text \<open>
  The loop over \<^verbatim>\<open>manifest.UserAgentCases\<close>. The list is the order in which this run of
  the \<^verbatim>\<open>range\<close> statement visits the keys; a key that is not in the map is never visited.
  The first visited pattern that the user agent contains ends the loop, with the merge or
  with its error.
\<close>

fun scanUserAgentCases ::
  "('t, 'v) library \<Rightarrow> (string \<rightharpoonup> RawMessage) \<Rightarrow> string \<Rightarrow> RawMessage \<Rightarrow> string list \<Rightarrow>
     error + RawMessage" where
  "scanUserAgentCases lib cases ua response [] = Inr response"
| "scanUserAgentCases lib cases ua response (uaPattern # rest) =
     (case cases uaPattern of
        None \<Rightarrow> scanUserAgentCases lib cases ua response rest
      | Some uaResponse \<Rightarrow>
          if contains ua uaPattern then mergeResponses lib response uaResponse
          else scanUserAgentCases lib cases ua response rest)"

definition matchRequestContext ::
  "('t, 'v) library \<Rightarrow> string list \<Rightarrow> 't ServiceManifest \<Rightarrow> RequestContext \<Rightarrow>
     error + RawMessage" where
  "matchRequestContext lib order manifest ctx =
     (case (if Country ctx \<noteq> [] then
              (case CountryCases manifest (Country ctx) of
                 Some countryResponse \<Rightarrow>
                   mergeResponses lib (DefaultResponse manifest) countryResponse
               | None \<Rightarrow> Inr (DefaultResponse manifest))
            else Inr (DefaultResponse manifest)) of
        Inl err \<Rightarrow> Inl err
      | Inr response \<Rightarrow>
          if UserAgent ctx \<noteq> [] then
            scanUserAgentCases lib (UserAgentCases manifest) (UserAgent ctx) response order
          else Inr response)"

text \<open>A visiting order of a Go map: every key of the map, once.\<close>

definition rangeOrder :: "string list \<Rightarrow> (string \<rightharpoonup> 'a) \<Rightarrow> bool" where
  "rangeOrder order m = (distinct order \<and> set order = dom m)"

section \<open>The manifest store\<close>

text \<open>The manifest that \<^verbatim>\<open>LoadManifest\<close> makes up when the file does not exist.\<close>

definition defaultManifest :: "'t ServiceManifest" where
  "defaultManifest =
     \<lparr>DefaultResponse =
        Some (JObject [(''message'', JString ''No manifest available for this service'')]),
      UserAgentCases = Map.empty,
      CountryCases = Map.empty,
      Templates = []\<rparr>"

text \<open>
  \<^verbatim>\<open>LoadManifest\<close> returns the manifest or the error, and the manager, whose cache it
  extends only on the last path.
\<close>

definition LoadManifest ::
  "('t, 'v) library \<Rightarrow> FS \<Rightarrow> 't ManifestManager \<Rightarrow> string \<Rightarrow>
     (error + 't ServiceManifest) \<times> 't ManifestManager" where
  "LoadManifest lib fs m serviceURL =
     (case manifests m serviceURL of
        Some manifest \<Rightarrow> (Inr manifest, m)
      | None \<Rightarrow>
          (case ReadFile fs (manifestPath m serviceURL) of
             Inl err \<Rightarrow>
               if err = ErrNotExist then (Inr defaultManifest, m) else (Inl err, m)
           | Inr data \<Rightarrow>
               (case jsonUnmarshalManifest lib data of
                  Inl err \<Rightarrow> (Inl err, m)
                | Inr manifest \<Rightarrow>
                    (Inr manifest, m\<lparr>manifests := (manifests m)(serviceURL \<mapsto> manifest)\<rparr>))))"

text \<open>
  \<^verbatim>\<open>UpdateManifest\<close> returns the error (\<open>None\<close> for \<^verbatim>\<open>nil\<close>), the manager and the file
  system.
\<close>

definition UpdateManifest ::
  "('t, 'v) library \<Rightarrow> FS \<Rightarrow> 't ManifestManager \<Rightarrow> string \<Rightarrow> 't ServiceManifest \<Rightarrow>
     error option \<times> 't ManifestManager \<times> FS" where
  "UpdateManifest lib fs m serviceURL manifest =
     (case jsonMarshalIndent lib manifest of
        Inl err \<Rightarrow> (Some err, m, fs)
      | Inr data \<Rightarrow>
          (case WriteFile fs (manifestPath m serviceURL) data of
             Inl err \<Rightarrow> (Some err, m, fs)
           | Inr fs' \<Rightarrow>
               (None, m\<lparr>manifests := (manifests m)(serviceURL \<mapsto> manifest)\<rparr>, fs')))"

section \<open>The entry point\<close>

text \<open>
  The first value that \<^verbatim>\<open>GetResponseForRequest\<close> returns is an \<^verbatim>\<open>interface{}\<close> that holds
  the raw message, the output of a template, or \<^verbatim>\<open>string(rawResponse)\<close>.
\<close>

datatype body =
    RawBody RawMessage
  | RenderedBody string
  | StringOfRaw RawMessage

text \<open>The first template, with its index, whose content type is the negotiated one.\<close>

fun findTemplate ::
  "string \<Rightarrow> 't ResponseTemplate list \<Rightarrow> nat \<Rightarrow> (nat \<times> 't ResponseTemplate) option" where
  "findTemplate responseType [] i = None"
| "findTemplate responseType (tmpl # rest) i =
     (if ContentType tmpl = responseType then Some (i, tmpl)
      else findTemplate responseType rest (Suc i))"

text \<open>
  The body of the loop for the template found: compile it unless it is compiled, store the
  compiled form in the manifest, which is the cached one, then decode the response and
  run the template on it.
\<close>

definition compileTemplate ::
  "('t, 'v) library \<Rightarrow> FS \<Rightarrow> 't ManifestManager \<Rightarrow> 't ResponseTemplate \<Rightarrow> error + 't" where
  "compileTemplate lib fs m tmpl =
     (case (if TemplateFile tmpl \<noteq> [] then
              (case ReadFile fs (basePath m, TemplateFile tmpl) of
                 Inl err \<Rightarrow> Inl TemplateFileError
               | Inr content \<Rightarrow> Inr content)
            else Inr (Template tmpl)) of
        Inl err \<Rightarrow> Inl err
      | Inr templateContent \<Rightarrow>
          (case templateParse lib templateContent of
             Inl err \<Rightarrow> Inl TemplateCompileError
           | Inr c \<Rightarrow> Inr c))"

definition storeCompiled ::
  "'t ManifestManager \<Rightarrow> string \<Rightarrow> 't ServiceManifest \<Rightarrow> nat \<Rightarrow> 't \<Rightarrow> 't ManifestManager" where
  "storeCompiled m serviceURL manifest i c =
     m\<lparr>manifests := (manifests m)(serviceURL \<mapsto>
          manifest\<lparr>Templates :=
            (Templates manifest)[i := (Templates manifest ! i)\<lparr>compiled := Some c\<rparr>]\<rparr>)\<rparr>"

definition executeTemplate ::
  "('t, 'v) library \<Rightarrow> 't \<Rightarrow> RawMessage \<Rightarrow> error + string" where
  "executeTemplate lib c rawResponse =
     (case rawResponse of
        None \<Rightarrow> Inl SyntaxError
      | Some v \<Rightarrow>
          (case jsonDecode lib v of
             Inl err \<Rightarrow> Inl err
           | Inr data \<Rightarrow> templateExecute lib c data))"

definition renderTemplate ::
  "('t, 'v) library \<Rightarrow> FS \<Rightarrow> 't ManifestManager \<Rightarrow> string \<Rightarrow> 't ServiceManifest \<Rightarrow> nat \<Rightarrow>
     't ResponseTemplate \<Rightarrow> RawMessage \<Rightarrow> (error + string) \<times> 't ManifestManager" where
  "renderTemplate lib fs m serviceURL manifest i tmpl rawResponse =
     (case compiled tmpl of
        Some c \<Rightarrow> (executeTemplate lib c rawResponse, m)
      | None \<Rightarrow>
          (case compileTemplate lib fs m tmpl of
             Inl err \<Rightarrow> (Inl err, m)
           | Inr c \<Rightarrow>
               (executeTemplate lib c rawResponse, storeCompiled m serviceURL manifest i c)))"

definition GetResponseForRequest ::
  "('t, 'v) library \<Rightarrow> string list \<Rightarrow> FS \<Rightarrow> 't ManifestManager \<Rightarrow> string \<Rightarrow> RequestContext \<Rightarrow>
     (error + body \<times> string) \<times> RequestContext \<times> 't ManifestManager" where
  "GetResponseForRequest lib order fs m serviceURL ctx =
     (case LoadManifest lib fs m serviceURL of
        (Inl err, m1) \<Rightarrow> (Inl err, ctx, m1)
      | (Inr manifest, m1) \<Rightarrow>
          (let responseType = determineResponseType (AcceptTypes ctx);
               ctx1 = ctx\<lparr>PreferredType := responseType\<rparr>
           in case matchRequestContext lib order manifest ctx1 of
                Inl err \<Rightarrow> (Inl err, ctx1, m1)
              | Inr rawResponse \<Rightarrow>
                  if responseType = ''application/json'' then
                    (Inr (RawBody rawResponse, responseType), ctx1, m1)
                  else
                    (case findTemplate responseType (Templates manifest) 0 of
                       None \<Rightarrow> (Inr (StringOfRaw rawResponse, ''text/plain''), ctx1, m1)
                     | Some (i, tmpl) \<Rightarrow>
                         (case renderTemplate lib fs m1 serviceURL manifest i tmpl rawResponse of
                            (Inl err, m2) \<Rightarrow> (Inl err, ctx1, m2)
                          | (Inr s, m2) \<Rightarrow> (Inr (RenderedBody s, responseType), ctx1, m2)))))"

section \<open>Example data\<close>

text \<open>
  The value that a decoder which keeps the last duplicate finds for a key of an object:
  that of the last member with this name.
\<close>

definition member :: "(string \<times> jvalue) list \<Rightarrow> string \<Rightarrow> jvalue option" where
  "member kvs k = map_of (rev kvs) k"


text \<open>
  A manifest with the two overlapping user agent patterns of the specification, and one
  country case.
\<close>

definition botManifest :: "unit ServiceManifest" where
  "botManifest =
     \<lparr>DefaultResponse = Some (JObject [(''greeting'', JString ''hello''), (''lang'', JString ''en'')]),
      UserAgentCases = map_of
        [(''bot'', Some (JObject [(''greeting'', JString ''hello bot'')])),
         (''bot2'', Some (JObject [(''greeting'', JString ''hello bot2'')]))],
      CountryCases = map_of [(''DE'', Some (JObject [(''greeting'', JString ''hallo''), (''lang'', JString ''de'')]))],
      Templates = []\<rparr>"

definition botContext :: RequestContext where
  "botContext =
     \<lparr>UserAgent = ''somebot2crawler'', AcceptTypes = [], Headers = Map.empty,
      PreferredType = [], Country = []\<rparr>"

definition frenchBotContext :: RequestContext where
  "frenchBotContext =
     \<lparr>UserAgent = ''somebot2crawler'', AcceptTypes = [], Headers = Map.empty,
      PreferredType = [], Country = ''FR''\<rparr>"

definition robotContext :: RequestContext where
  "robotContext =
     \<lparr>UserAgent = ''robot/1.0'', AcceptTypes = [], Headers = Map.empty,
      PreferredType = [], Country = ''DE''\<rparr>"

definition germanBotContext :: RequestContext where
  "germanBotContext =
     \<lparr>UserAgent = ''somebot2crawler'', AcceptTypes = [''text/plain''], Headers = Map.empty,
      PreferredType = [], Country = ''DE''\<rparr>"

text \<open>
  A manifest with two patterns that the user agent string of one common browser
  contains.
\<close>

definition browserManifest :: "unit ServiceManifest" where
  "browserManifest =
     \<lparr>DefaultResponse = Some (JObject [(''engine'', JString ''unknown'')]),
      UserAgentCases = map_of
        [(''Chrome'', Some (JObject [(''engine'', JString ''blink'')])),
         (''Safari'', Some (JObject [(''engine'', JString ''webkit'')]))],
      CountryCases = Map.empty,
      Templates = []\<rparr>"

definition browserContext :: RequestContext where
  "browserContext =
     \<lparr>UserAgent = ''Mozilla/5.0 Chrome/120.0 Safari/537.36'', AcceptTypes = [''text/html''],
      Headers = Map.empty, PreferredType = [], Country = []\<rparr>"

text \<open>
  A manifest with one template, for \<^verbatim>\<open>text/html\<close>, and a request that accepts plain text
  only.
\<close>

definition htmlManifest :: "unit ServiceManifest" where
  "htmlManifest =
     \<lparr>DefaultResponse = Some (JObject [(''title'', JString ''usernet'')]),
      UserAgentCases = Map.empty,
      CountryCases = Map.empty,
      Templates =
        [\<lparr>ContentType = ''text/html'', Template = ''<h1>{{.title}}</h1>'',
          TemplateFile = [], compiled = None\<rparr>]\<rparr>"

definition plainContext :: RequestContext where
  "plainContext =
     \<lparr>UserAgent = ''curl/8.0'', AcceptTypes = [''text/plain''], Headers = Map.empty,
      PreferredType = [], Country = []\<rparr>"

text \<open>
  Stand-ins for the library and the file system, to run the package at concrete inputs: a
  codec that knows the texts of two manifests, a value codec that hands every JSON value
  through (as \<^verbatim>\<open>encoding/json\<close> does with strings, and with numbers and objects written the
  way it prints them), a template engine that parses everything, an empty file system,
  and one on which every write fails.
\<close>

definition exampleLibrary :: "(unit, jvalue) library" where
  "exampleLibrary =
     \<lparr>jsonUnmarshalManifest =
        (\<lambda>data. if data = ''bot'' then Inr botManifest
                else if data = ''browser'' then Inr browserManifest
                else Inl SyntaxError),
      jsonMarshalIndent =
        (\<lambda>manifest. if DefaultResponse manifest = DefaultResponse botManifest then Inr ''bot''
                    else if DefaultResponse manifest = DefaultResponse browserManifest
                      then Inr ''browser''
                    else Inl MarshalError),
      jsonDecode = (\<lambda>v. Inr v),
      jsonEncode = (\<lambda>x. x),
      templateParse = (\<lambda>content. Inr ()),
      templateExecute = (\<lambda>c data. Inl TemplateExecError)\<rparr>"

definition emptyFS :: FS where
  "emptyFS = \<lparr>node = Map.empty, readFails = (\<lambda>p. False), writeFails = (\<lambda>p. False)\<rparr>"

definition readOnlyFS :: FS where
  "readOnlyFS = \<lparr>node = Map.empty, readFails = (\<lambda>p. False), writeFails = (\<lambda>p. True)\<rparr>"

section \<open>Auxiliary facts\<close>

subsection \<open>Sorting an association list by its keys\<close>

lemma distinct_insort_key_fst:
  "distinct (map fst (insort_key fst x xs)) = (fst x \<notin> fst ` set xs \<and> distinct (map fst xs))"
  by (induction xs) (auto simp: set_insort_key)

lemma map_of_insort_key_fst:
  "fst x \<notin> fst ` set xs \<Longrightarrow> map_of (insort_key fst x xs) = (map_of xs)(fst x \<mapsto> snd x)"
  by (induction xs) (auto simp: fun_upd_twist)

lemma distinct_sort_key_fst:
  "distinct (map fst (sort_key fst m)) = distinct (map fst m)"
  by (induction m) (auto simp: distinct_insort_key_fst)

lemma map_of_sort_key_fst:
  "distinct (map fst m) \<Longrightarrow> map_of (sort_key fst m) = map_of m"
proof (induction m)
  case Nil
  then show ?case by simp
next
  case (Cons x m)
  have "fst x \<notin> fst ` set (sort_key fst m)" using Cons.prems by auto
  then have "map_of (sort_key fst (x # m)) = (map_of (sort_key fst m))(fst x \<mapsto> snd x)"
    by (simp add: map_of_insort_key_fst)
  with Cons show ?case by (cases x) simp
qed

lemma map_of_rev_distinct: "distinct (map fst xs) \<Longrightarrow> map_of (rev xs) = map_of xs"
  by (metis distinct_rev map_of_inject_set rev_map set_rev)

lemma fst_comp_map_value: "fst \<circ> (\<lambda>(k, x). (k, f x)) = fst"
  by auto

subsection \<open>Decoding and merging objects\<close>

lemma member_in_set: "member kvs k = Some v \<Longrightarrow> (k, v) \<in> set kvs"
  by (auto simp: member_def dest: map_of_SomeD)

lemma member_distinct: "distinct (map fst xs) \<Longrightarrow> member xs k = map_of xs k"
  by (simp add: member_def map_of_rev_distinct)

lemma map_of_fold_update:
  "map_of (fold (\<lambda>(k, v) m. AList.update k v m) kvs acc) = map_of acc ++ map_of (rev kvs)"
proof (induction kvs arbitrary: acc)
  case Nil
  then show ?case by simp
next
  case (Cons kv kvs)
  obtain k v where kv: "kv = (k, v)" by (cases kv)
  show ?case
    by (simp add: kv Cons.IH update_conv' map_add_upd_left fun_eq_iff map_add_def split: option.splits)
qed

lemma distinct_fold_update:
  "distinct (map fst acc) \<Longrightarrow>
   distinct (map fst (fold (\<lambda>(k, v) m. AList.update k v m) kvs acc))"
  by (induction kvs arbitrary: acc) (auto simp: distinct_update)

lemma mergeMaps_Some:
  "mergeMaps (Some m) kvs = Inr (Some (fold (\<lambda>(k, v) m. AList.update k v m) kvs m))"
  by (induction kvs arbitrary: m) auto

lemma decodeObject_Inr:
  "\<forall>kv \<in> set kvs. jsonDecode lib (snd kv) = Inr (dec (snd kv)) \<Longrightarrow>
   decodeObject lib kvs m =
     Inr (fold (\<lambda>(k, x) m. AList.update k x m) (map (\<lambda>(k, v). (k, dec v)) kvs) m)"
  by (induction kvs arbitrary: m) auto


lemma map_of_decoded:
  "map_of (fold (\<lambda>(k, x) m. AList.update k x m) (map (\<lambda>(k, v). (k, dec v)) kvs) []) k =
   map_option dec (member kvs k)"
proof -
  have "rev (map (\<lambda>(k, v). (k, dec v)) kvs) = map (\<lambda>(k, v). (k, dec v)) (rev kvs)"
    by (simp add: rev_map)
  then show ?thesis
    by (simp add: map_of_fold_update member_def map_of_map)
qed

lemma distinct_decoded:
  "distinct (map fst (fold (\<lambda>(k, x) m. AList.update k x m) kvs []))"
  by (simp add: distinct_fold_update)

lemma mergeResponses_objects:
  assumes "\<forall>kv \<in> set base. jsonDecode lib (snd kv) = Inr (dec (snd kv))"
    and "\<forall>kv \<in> set override. jsonDecode lib (snd kv) = Inr (dec (snd kv))"
  shows "mergeResponses lib (Some (JObject base)) (Some (JObject override)) =
     Inr (Some (JObject (map (\<lambda>(k, x). (k, jsonEncode lib x)) (sort_key fst
       (fold (\<lambda>(k, x) m. AList.update k x m)
          (fold (\<lambda>(k, x) m. AList.update k x m) (map (\<lambda>(k, v). (k, dec v)) override) [])
          (fold (\<lambda>(k, x) m. AList.update k x m) (map (\<lambda>(k, v). (k, dec v)) base) []))))))"
  by (simp add: mergeResponses_def decodeObject_Inr [OF assms(1)] decodeObject_Inr [OF assms(2)]
      mergeMaps_Some)

lemma map_of_merged:
  "map_of (map (\<lambda>(k, x). (k, enc x)) (sort_key fst
       (fold (\<lambda>(k, x) m. AList.update k x m)
          (fold (\<lambda>(k, x) m. AList.update k x m) (map (\<lambda>(k, v). (k, dec v)) override) [])
          (fold (\<lambda>(k, x) m. AList.update k x m) (map (\<lambda>(k, v). (k, dec v)) base) [])))) k
   = (case member override k of
        Some v \<Rightarrow> Some (enc (dec v))
      | None \<Rightarrow> map_option (\<lambda>v. enc (dec v)) (member base k))"
proof -
  let ?b = "fold (\<lambda>(k, x) m. AList.update k x m) (map (\<lambda>(k, v). (k, dec v)) base) []"
  let ?o = "fold (\<lambda>(k, x) m. AList.update k x m) (map (\<lambda>(k, v). (k, dec v)) override) []"
  let ?m = "fold (\<lambda>(k, x) m. AList.update k x m) ?o ?b"
  have dm: "distinct (map fst ?m)"
    by (simp add: distinct_fold_update)
  have "map_of (map (\<lambda>(k, x). (k, enc x)) (sort_key fst ?m)) k =
      map_option enc (map_of (sort_key fst ?m) k)"
    by (simp add: map_of_map)
  also have "\<dots> = map_option enc (map_of ?m k)"
    by (simp add: map_of_sort_key_fst [OF dm])
  also have "map_of ?m k = (map_of ?b ++ map_of ?o) k"
    by (simp add: map_of_fold_update map_of_rev_distinct [OF distinct_decoded])
  also have "\<dots> = (case member override k of
        Some v \<Rightarrow> Some (dec v) | None \<Rightarrow> map_option dec (member base k))"
    by (simp add: map_add_def map_of_decoded split: option.splits)
  finally show ?thesis
    by (simp add: option.map_comp comp_def split: option.splits)
qed

lemma keys_merged:
  "distinct (map fst (map (\<lambda>(k, x). (k, enc x)) (sort_key fst
       (fold (\<lambda>(k, x) m. AList.update k x m) ovr
          (fold (\<lambda>(k, x) m. AList.update k x m) bs []))))) \<and>
   sorted (map fst (map (\<lambda>(k, x). (k, enc x)) (sort_key fst
       (fold (\<lambda>(k, x) m. AList.update k x m) ovr
          (fold (\<lambda>(k, x) m. AList.update k x m) bs [])))))"
  by (simp add: fst_comp_map_value distinct_sort_key_fst distinct_fold_update sorted_sort_key)

lemma exampleLibrary_codec [simp]:
  "jsonDecode exampleLibrary v = Inr v" "jsonEncode exampleLibrary x = x"
  by (simp_all add: exampleLibrary_def)

subsection \<open>The scan of the user agent cases\<close>

lemma scanUserAgentCases_find:
  "scanUserAgentCases lib cases ua response order =
     (case find (\<lambda>p. cases p \<noteq> None \<and> contains ua p) order of
        None \<Rightarrow> Inr response
      | Some p \<Rightarrow> (case cases p of None \<Rightarrow> Inr response
                   | Some uaResponse \<Rightarrow> mergeResponses lib response uaResponse))"
  by (induction order) (auto split: option.splits)

lemma find_rangeOrder_None:
  assumes "rangeOrder order cases"
  shows "find (\<lambda>p. cases p \<noteq> None \<and> contains ua p) order = None \<longleftrightarrow>
         (\<forall>p uaResponse. cases p = Some uaResponse \<longrightarrow> \<not> contains ua p)"
proof
  from assms have mem: "set order = dom cases"
    by (simp add: rangeOrder_def)
  {
    assume none: "find (\<lambda>p. cases p \<noteq> None \<and> contains ua p) order = None"
    show "\<forall>p uaResponse. cases p = Some uaResponse \<longrightarrow> \<not> contains ua p"
    proof (intro allI impI)
      fix p uaResponse
      assume p: "cases p = Some uaResponse"
      then have "p \<in> set order" using mem by (simp add: domI)
      with none have "\<not> (cases p \<noteq> None \<and> contains ua p)"
        unfolding find_None_iff by blast
      with p show "\<not> contains ua p" by simp
    qed
  }
  {
    assume "\<forall>p uaResponse. cases p = Some uaResponse \<longrightarrow> \<not> contains ua p"
    then have "\<not> (cases p \<noteq> None \<and> contains ua p)" for p
      by (cases "cases p") simp_all
    then show "find (\<lambda>p. cases p \<noteq> None \<and> contains ua p) order = None"
      unfolding find_None_iff by blast
  }
qed

lemma find_Some_matches:
  "find (\<lambda>p. cases p \<noteq> None \<and> contains ua p) order = Some p \<Longrightarrow>
   cases p \<noteq> None \<and> contains ua p"
  by (auto simp: find_Some_iff)

lemma matchRequestContext_PreferredType:
  "matchRequestContext lib order manifest (ctx\<lparr>PreferredType := t\<rparr>) =
   matchRequestContext lib order manifest ctx"
  by (simp add: matchRequestContext_def split: sum.splits)

subsection \<open>The search for a template\<close>

lemma findTemplate_None:
  "findTemplate responseType tmpls i = None \<longleftrightarrow>
   (\<forall>tmpl \<in> set tmpls. ContentType tmpl \<noteq> responseType)"
  by (induction tmpls arbitrary: i) auto

section \<open>Identity overrides: the first visited match\<close>

text \<open>
  Claim C1, as amended. For every accumulator and every order in which the loop visits the
  patterns: when a visited pattern is a key of \<^verbatim>\<open>UserAgentCases\<close>, is contained in the
  user agent, and no pattern visited before it is, the loop returns the merge of that one
  override onto the accumulator, whatever is left to visit; when no visited pattern is
  contained in the user agent, the accumulator is returned as it is. The order is that of
  the run, not one fixed by the rule set. For every context with a non-empty user agent,
  with or without a country, the resolution is this loop, started on the accumulator that
  the country block leaves: the default response, or its merge with the country case.
\<close>

theorem scanUserAgentCases_first_visited_match:
  "((\<forall>q \<in> set before. cases q = None \<or> \<not> contains ua q) \<longrightarrow>
      cases p = Some uaResponse \<longrightarrow> contains ua p \<longrightarrow>
      scanUserAgentCases lib cases ua response (before @ p # rest) =
        mergeResponses lib response uaResponse) \<and>
   ((\<forall>q \<in> set order. cases q = None \<or> \<not> contains ua q) \<longrightarrow>
      scanUserAgentCases lib cases ua response order = Inr response) \<and>
   (UserAgent ctx \<noteq> [] \<longrightarrow>
      matchRequestContext lib order manifest ctx =
        (case (if Country ctx \<noteq> [] then
                 (case CountryCases manifest (Country ctx) of
                    Some countryResponse \<Rightarrow>
                      mergeResponses lib (DefaultResponse manifest) countryResponse
                  | None \<Rightarrow> Inr (DefaultResponse manifest))
               else Inr (DefaultResponse manifest)) of
           Inl err \<Rightarrow> Inl err
         | Inr accumulator \<Rightarrow>
             scanUserAgentCases lib (UserAgentCases manifest) (UserAgent ctx)
               accumulator order))"
proof (intro conjI impI)
  assume "\<forall>q \<in> set before. cases q = None \<or> \<not> contains ua q"
    and "cases p = Some uaResponse" and "contains ua p"
  then show "scanUserAgentCases lib cases ua response (before @ p # rest) =
      mergeResponses lib response uaResponse"
    by (induction before) (auto split: option.splits)
next
  assume "\<forall>q \<in> set order. cases q = None \<or> \<not> contains ua q"
  then show "scanUserAgentCases lib cases ua response order = Inr response"
    by (induction order) (auto split: option.splits)
next
  assume "UserAgent ctx \<noteq> []"
  then show "matchRequestContext lib order manifest ctx =
        (case (if Country ctx \<noteq> [] then
                 (case CountryCases manifest (Country ctx) of
                    Some countryResponse \<Rightarrow>
                      mergeResponses lib (DefaultResponse manifest) countryResponse
                  | None \<Rightarrow> Inr (DefaultResponse manifest))
               else Inr (DefaultResponse manifest)) of
           Inl err \<Rightarrow> Inl err
         | Inr accumulator \<Rightarrow>
             scanUserAgentCases lib (UserAgentCases manifest) (UserAgent ctx)
               accumulator order)"
    by (simp add: matchRequestContext_def split: sum.splits)
qed

text \<open>
  The identity \<^verbatim>\<open>somebot2crawler\<close>: with the patterns visited in the order \<^verbatim>\<open>bot\<close>,
  \<^verbatim>\<open>bot2\<close> only the override of \<^verbatim>\<open>bot\<close> is applied, without a country and with a country
  that has no case. The identity \<^verbatim>\<open>robot/1.0\<close> and the country \<^verbatim>\<open>DE\<close>: \<^verbatim>\<open>bot2\<close> is visited
  first and does not match, and the override of \<^verbatim>\<open>bot\<close> is merged onto the merge with the
  country case. An identity that contains no pattern gets the default response.
\<close>

theorem scanUserAgentCases_first_visited_match_witness:
  "matchRequestContext exampleLibrary [''bot'', ''bot2''] botManifest botContext =
     Inr (Some (JObject [(''greeting'', JString ''hello bot''), (''lang'', JString ''en'')])) \<and>
   matchRequestContext exampleLibrary [''bot'', ''bot2''] botManifest frenchBotContext =
     Inr (Some (JObject [(''greeting'', JString ''hello bot''), (''lang'', JString ''en'')])) \<and>
   matchRequestContext exampleLibrary [''bot2'', ''bot''] botManifest robotContext =
     Inr (Some (JObject [(''greeting'', JString ''hello bot''), (''lang'', JString ''de'')])) \<and>
   matchRequestContext exampleLibrary [''bot'', ''bot2'']
     botManifest (botContext\<lparr>UserAgent := ''curl/8.0''\<rparr>) = Inr (DefaultResponse botManifest)"
proof -
  let ?cases = "UserAgentCases botManifest"
  let ?bot = "Some (JObject [(''greeting'', JString ''hello bot'')])"
  let ?de = "Some (JObject [(''greeting'', JString ''hallo''), (''lang'', JString ''de'')])"
  have bot: "?cases ''bot'' = Some ?bot"
    by (simp add: botManifest_def)
  note first = scanUserAgentCases_first_visited_match
    [of "[]" ?cases "''somebot2crawler''" "''bot''" ?bot exampleLibrary
        "DefaultResponse botManifest" "[''bot2'']" "[''bot'', ''bot2'']" botContext botManifest]
  note french = scanUserAgentCases_first_visited_match
    [of "[]" ?cases "''somebot2crawler''" "''bot''" ?bot exampleLibrary
        "DefaultResponse botManifest" "[''bot2'']" "[''bot'', ''bot2'']" frenchBotContext
        botManifest]
  note later = scanUserAgentCases_first_visited_match
    [of "[''bot2'']" ?cases "''robot/1.0''" "''bot''" ?bot exampleLibrary
        "Some (JObject [(''greeting'', JString ''hallo''), (''lang'', JString ''de'')])" "[]"
        "[''bot2'', ''bot'']" robotContext botManifest]
  note none = scanUserAgentCases_first_visited_match
    [of "[]" ?cases "''curl/8.0''" "''bot''" ?bot exampleLibrary
        "DefaultResponse botManifest" "[]" "[''bot'', ''bot2'']"
        "botContext\<lparr>UserAgent := ''curl/8.0''\<rparr>" botManifest]
  have m1: "mergeResponses exampleLibrary (DefaultResponse botManifest) ?bot =
      Inr (Some (JObject [(''greeting'', JString ''hello bot''), (''lang'', JString ''en'')]))"
    by (simp add: botManifest_def mergeResponses_def)
  have m2: "mergeResponses exampleLibrary (DefaultResponse botManifest) ?de = Inr ?de"
    by (simp add: botManifest_def mergeResponses_def)
  have m3: "mergeResponses exampleLibrary ?de ?bot =
      Inr (Some (JObject [(''greeting'', JString ''hello bot''), (''lang'', JString ''de'')]))"
    by (simp add: mergeResponses_def)
  have c1: "matchRequestContext exampleLibrary [''bot'', ''bot2''] botManifest botContext =
      Inr (Some (JObject [(''greeting'', JString ''hello bot''), (''lang'', JString ''en'')]))"
    using first bot m1 by (simp add: botContext_def)
  have c2: "matchRequestContext exampleLibrary [''bot'', ''bot2''] botManifest frenchBotContext =
      Inr (Some (JObject [(''greeting'', JString ''hello bot''), (''lang'', JString ''en'')]))"
    using french bot m1 by (simp add: frenchBotContext_def botManifest_def)
  have c3: "matchRequestContext exampleLibrary [''bot2'', ''bot''] botManifest robotContext =
      Inr (Some (JObject [(''greeting'', JString ''hello bot''), (''lang'', JString ''de'')]))"
    using later bot m2 m3 by (simp add: robotContext_def botManifest_def)
  have c4: "matchRequestContext exampleLibrary [''bot'', ''bot2''] botManifest
      (botContext\<lparr>UserAgent := ''curl/8.0''\<rparr>) = Inr (DefaultResponse botManifest)"
    using none by (simp add: botContext_def botManifest_def)
  from c1 c2 c3 c4 show ?thesis by simp
qed

text \<open>
  The same map visited in the order \<^verbatim>\<open>bot2\<close>, \<^verbatim>\<open>bot\<close>, which a run may take: the
  override of \<^verbatim>\<open>bot2\<close> is applied, not that of \<^verbatim>\<open>bot\<close>.
\<close>

theorem first_in_fixed_order_counterexample:
  "rangeOrder [''bot2'', ''bot''] (UserAgentCases botManifest) \<and>
   matchRequestContext exampleLibrary [''bot2'', ''bot''] botManifest botContext =
     Inr (Some (JObject [(''greeting'', JString ''hello bot2''), (''lang'', JString ''en'')])) \<and>
   matchRequestContext exampleLibrary [''bot2'', ''bot''] botManifest botContext \<noteq>
     mergeResponses exampleLibrary (DefaultResponse botManifest)
       (Some (JObject [(''greeting'', JString ''hello bot'')]))"
  by (auto simp: rangeOrder_def botManifest_def botContext_def matchRequestContext_def
      mergeResponses_def dom_map_of_conv_image_fst)

section \<open>Resolving twice\<close>

text \<open>
  Claim C2, as amended. Two resolutions of the same manifest and context give the same
  result, whatever orders the two runs visit the user agent cases in, when all patterns
  that the user agent contains carry the same override (so also when at most one pattern
  is contained).
\<close>

theorem matchRequestContext_order_independent:
  assumes o1: "rangeOrder order1 (UserAgentCases manifest)"
    and o2: "rangeOrder order2 (UserAgentCases manifest)"
    and same: "\<forall>p q r1 r2. UserAgentCases manifest p = Some r1 \<and>
        UserAgentCases manifest q = Some r2 \<and>
        contains (UserAgent ctx) p \<and> contains (UserAgent ctx) q \<longrightarrow> r1 = r2"
  shows "matchRequestContext lib order1 manifest ctx =
         matchRequestContext lib order2 manifest ctx"
proof -
  let ?cases = "UserAgentCases manifest"
  let ?ua = "UserAgent ctx"
  let ?P = "\<lambda>p. ?cases p \<noteq> None \<and> contains ?ua p"
  have "scanUserAgentCases lib ?cases ?ua response order1 =
        scanUserAgentCases lib ?cases ?ua response order2" for response
  proof (cases "find ?P order1")
    case None
    then have "find ?P order2 = None"
      using find_rangeOrder_None [OF o1, of ?ua] find_rangeOrder_None [OF o2, of ?ua] by simp
    with None show ?thesis by (simp add: scanUserAgentCases_find)
  next
    case (Some p)
    then have p: "?cases p \<noteq> None" "contains ?ua p"
      using find_Some_matches by fastforce+
    have "find ?P order2 \<noteq> None"
      using find_rangeOrder_None [OF o2, of ?ua] p by auto
    then obtain q where q: "find ?P order2 = Some q" by auto
    then have q': "?cases q \<noteq> None" "contains ?ua q"
      using find_Some_matches by fastforce+
    from p q' same have "?cases p = ?cases q" by auto
    with Some q p show ?thesis by (auto simp: scanUserAgentCases_find)
  qed
  then show ?thesis by (simp add: matchRequestContext_def split: sum.splits)
qed

text \<open>
  The identity \<^verbatim>\<open>robot/1.0\<close> contains \<^verbatim>\<open>bot\<close> and not \<^verbatim>\<open>bot2\<close>: both orders give the
  same document.
\<close>

theorem matchRequestContext_order_independent_witness:
  "rangeOrder [''bot'', ''bot2''] (UserAgentCases botManifest) \<and>
   rangeOrder [''bot2'', ''bot''] (UserAgentCases botManifest) \<and>
   matchRequestContext exampleLibrary [''bot'', ''bot2''] botManifest robotContext =
   matchRequestContext exampleLibrary [''bot2'', ''bot''] botManifest robotContext \<and>
   matchRequestContext exampleLibrary [''bot2'', ''bot''] botManifest robotContext =
     Inr (Some (JObject [(''greeting'', JString ''hello bot''), (''lang'', JString ''de'')]))"
proof -
  have o1: "rangeOrder [''bot'', ''bot2''] (UserAgentCases botManifest)"
    by (auto simp: rangeOrder_def botManifest_def dom_map_of_conv_image_fst)
  have o2: "rangeOrder [''bot2'', ''bot''] (UserAgentCases botManifest)"
    by (auto simp: rangeOrder_def botManifest_def dom_map_of_conv_image_fst)
  have same: "\<forall>p q r1 r2. UserAgentCases botManifest p = Some r1 \<and>
        UserAgentCases botManifest q = Some r2 \<and>
        contains (UserAgent robotContext) p \<and> contains (UserAgent robotContext) q \<longrightarrow> r1 = r2"
    by (auto simp: botManifest_def robotContext_def split: if_splits)
  have "matchRequestContext exampleLibrary [''bot2'', ''bot''] botManifest robotContext =
     Inr (Some (JObject [(''greeting'', JString ''hello bot''), (''lang'', JString ''de'')]))"
    by (simp add: botManifest_def robotContext_def matchRequestContext_def
      mergeResponses_def)
  with o1 o2 matchRequestContext_order_independent [OF o1 o2 same, of exampleLibrary]
  show ?thesis by simp
qed

text \<open>
  A browser identity that contains both patterns: the two visiting orders of the same map
  give different documents.
\<close>

theorem iteration_order_counterexample:
  "rangeOrder [''Chrome'', ''Safari''] (UserAgentCases browserManifest) \<and>
   rangeOrder [''Safari'', ''Chrome''] (UserAgentCases browserManifest) \<and>
   matchRequestContext exampleLibrary [''Chrome'', ''Safari''] browserManifest browserContext \<noteq>
   matchRequestContext exampleLibrary [''Safari'', ''Chrome''] browserManifest browserContext"
  by (auto simp: rangeOrder_def browserManifest_def browserContext_def matchRequestContext_def
      mergeResponses_def dom_map_of_conv_image_fst)

section \<open>Negotiation\<close>

text \<open>
  Claim C3, as amended. The first token of the accept list, in the order of the list, that
  contains one of the three media types decides: \<^verbatim>\<open>text/html\<close> if the token contains it,
  else \<^verbatim>\<open>text/plain\<close> if the token contains it, else \<^verbatim>\<open>application/json\<close>. The empty list
  and a list with no such token give \<^verbatim>\<open>application/json\<close>.
\<close>

theorem determineResponseType_first_token:
  "determineResponseType accept =
     (case find (\<lambda>typ. contains typ ''text/html'' \<or> contains typ ''text/plain'' \<or>
                        contains typ ''application/json'') accept of
        None \<Rightarrow> ''application/json''
      | Some typ \<Rightarrow>
          if contains typ ''text/html'' then ''text/html''
          else if contains typ ''text/plain'' then ''text/plain''
          else ''application/json'')"
proof -
  have "scanAccept accept =
     (case find (\<lambda>typ. contains typ ''text/html'' \<or> contains typ ''text/plain'' \<or>
                        contains typ ''application/json'') accept of
        None \<Rightarrow> ''application/json''
      | Some typ \<Rightarrow>
          if contains typ ''text/html'' then ''text/html''
          else if contains typ ''text/plain'' then ''text/plain''
          else ''application/json'')"
    by (induction accept) simp_all
  then show ?thesis
    by (cases accept) (simp_all add: determineResponseType_def)
qed

text \<open>
  The precedence of html over plain holds inside one token, not across tokens.
\<close>

theorem determineResponseType_first_token_witness:
  "determineResponseType [''text/plain'', ''text/html''] = ''text/plain'' \<and>
   determineResponseType [''text/html'', ''text/plain''] = ''text/html'' \<and>
   determineResponseType [''image/png'', ''text/plain,text/html''] = ''text/html'' \<and>
   determineResponseType [''application/xml''] = ''application/json'' \<and>
   determineResponseType [] = ''application/json''"
  using determineResponseType_first_token [of "[''text/plain'', ''text/html'']"]
    determineResponseType_first_token [of "[''text/html'', ''text/plain'']"]
    determineResponseType_first_token [of "[''image/png'', ''text/plain,text/html'']"]
    determineResponseType_first_token [of "[''application/xml'']"]
    determineResponseType_first_token [of "[]"]
  by simp

text \<open>
  The accept list \<^verbatim>\<open>["text/plain", "text/html"]\<close> has a token that contains
  \<^verbatim>\<open>text/html\<close>, and is not negotiated to \<^verbatim>\<open>text/html\<close>.
\<close>

theorem determineResponseType_order_counterexample:
  "contains ''text/html'' ''text/html'' \<and>
   determineResponseType [''text/plain'', ''text/html''] \<noteq> ''text/html''"
  by (simp add: determineResponseType_def)

section \<open>The merge\<close>



section \<open>No identity and no locale\<close>

text \<open>
  Claim C5. With an empty user agent and an empty country the resolution returns the
  default response of the manifest, as it is stored.
\<close>

theorem matchRequestContext_empty_identity_locale:
  "UserAgent ctx = [] \<Longrightarrow> Country ctx = [] \<Longrightarrow>
   matchRequestContext lib order manifest ctx = Inr (DefaultResponse manifest)"
  by (simp add: matchRequestContext_def)

theorem matchRequestContext_empty_identity_locale_witness:
  "matchRequestContext exampleLibrary [''bot2'', ''bot''] botManifest
     (botContext\<lparr>UserAgent := []\<rparr>) =
     Inr (Some (JObject [(''greeting'', JString ''hello''), (''lang'', JString ''en'')]))"
  using matchRequestContext_empty_identity_locale
    [of "botContext\<lparr>UserAgent := []\<rparr>" exampleLibrary "[''bot2'', ''bot'']" botManifest]
  by (simp add: botManifest_def botContext_def)

section \<open>Locale before identity\<close>

text \<open>
  Claim C6. When the country has a case and a visited user agent pattern matches, the
  default response is merged with the country case first and the user agent case is
  merged onto that result; an error of the first merge ends the resolution. For three
  objects whose member values decode, and a library that decodes what it has encoded to
  the value it encoded, the value of a key is that of the user agent case if it has the
  key, else that of the country case if it has the key, else that of the default, each
  decoded and encoded again.
\<close>

theorem country_merged_before_user_agent:
  assumes "Country ctx \<noteq> []"
    and "CountryCases manifest (Country ctx) = Some countryResponse"
    and "UserAgent ctx \<noteq> []"
    and "\<forall>q \<in> set before. UserAgentCases manifest q = None \<or> \<not> contains (UserAgent ctx) q"
    and "UserAgentCases manifest p = Some uaResponse"
    and "contains (UserAgent ctx) p"
  shows "matchRequestContext lib (before @ p # rest) manifest ctx =
           (case mergeResponses lib (DefaultResponse manifest) countryResponse of
              Inl err \<Rightarrow> Inl err
            | Inr response \<Rightarrow> mergeResponses lib response uaResponse) \<and>
         (\<forall>d c u dec. DefaultResponse manifest = Some (JObject d) \<and>
              countryResponse = Some (JObject c) \<and> uaResponse = Some (JObject u) \<and>
              (\<forall>kv \<in> set d \<union> set c \<union> set u. jsonDecode lib (snd kv) = Inr (dec (snd kv))) \<and>
              (\<forall>x. jsonDecode lib (jsonEncode lib x) = Inr x) \<longrightarrow>
            (\<exists>ms. matchRequestContext lib (before @ p # rest) manifest ctx =
                    Inr (Some (JObject ms)) \<and>
               (\<forall>k. map_of ms k =
                  (case member u k of
                     Some v \<Rightarrow> Some (jsonEncode lib (dec v))
                   | None \<Rightarrow>
                       (case member c k of
                          Some v \<Rightarrow> Some (jsonEncode lib (dec v))
                        | None \<Rightarrow> map_option (\<lambda>v. jsonEncode lib (dec v)) (member d k))))))"
proof -
  have scan: "scanUserAgentCases lib (UserAgentCases manifest) (UserAgent ctx) response
      (before @ p # rest) = mergeResponses lib response uaResponse" for response
    using assms(4-6) by (induction before) (auto split: option.splits)
  have seq: "matchRequestContext lib (before @ p # rest) manifest ctx =
           (case mergeResponses lib (DefaultResponse manifest) countryResponse of
              Inl err \<Rightarrow> Inl err
            | Inr response \<Rightarrow> mergeResponses lib response uaResponse)"
    using assms(1-3) by (simp add: matchRequestContext_def scan split: sum.splits)
  have obj: "\<exists>ms. matchRequestContext lib (before @ p # rest) manifest ctx =
                    Inr (Some (JObject ms)) \<and>
               (\<forall>k. map_of ms k =
                  (case member u k of
                     Some v \<Rightarrow> Some (jsonEncode lib (dec v))
                   | None \<Rightarrow>
                       (case member c k of
                          Some v \<Rightarrow> Some (jsonEncode lib (dec v))
                        | None \<Rightarrow> map_option (\<lambda>v. jsonEncode lib (dec v)) (member d k))))"
    if dflt: "DefaultResponse manifest = Some (JObject d)"
      and ctry: "countryResponse = Some (JObject c)"
      and uagt: "uaResponse = Some (JObject u)"
      and decd: "\<forall>kv \<in> set d. jsonDecode lib (snd kv) = Inr (dec (snd kv))"
      and decc: "\<forall>kv \<in> set c. jsonDecode lib (snd kv) = Inr (dec (snd kv))"
      and decu: "\<forall>kv \<in> set u. jsonDecode lib (snd kv) = Inr (dec (snd kv))"
      and stable: "\<forall>x. jsonDecode lib (jsonEncode lib x) = Inr x"
    for d c u dec
  proof -
    define dec2 where "dec2 v = (case jsonDecode lib v of Inr x \<Rightarrow> x | Inl err \<Rightarrow> dec v)" for v
    have dec2_Inr: "jsonDecode lib v = Inr x \<Longrightarrow> jsonDecode lib v = Inr (dec2 v)" for v x
      by (simp add: dec2_def)
    have dec2_enc: "dec2 (jsonEncode lib x) = x" for x
      using stable by (simp add: dec2_def)
    let ?m1 = "sort_key fst
       (fold (\<lambda>(k, x) m. AList.update k x m)
          (fold (\<lambda>(k, x) m. AList.update k x m) (map (\<lambda>(k, v). (k, dec v)) c) [])
          (fold (\<lambda>(k, x) m. AList.update k x m) (map (\<lambda>(k, v). (k, dec v)) d) []))"
    let ?ms1 = "map (\<lambda>(k, x). (k, jsonEncode lib x)) ?m1"
    have first: "mergeResponses lib (DefaultResponse manifest) countryResponse =
        Inr (Some (JObject ?ms1))"
      unfolding dflt ctry by (rule mergeResponses_objects [OF decd decc])
    have ms1: "map_of ?ms1 k =
        (case member c k of
           Some v \<Rightarrow> Some (jsonEncode lib (dec v))
         | None \<Rightarrow> map_option (\<lambda>v. jsonEncode lib (dec v)) (member d k))" for k
      by (rule map_of_merged)
    have dist1: "distinct (map fst ?ms1)"
      using keys_merged by blast
    have dec1: "\<forall>kv \<in> set ?ms1. jsonDecode lib (snd kv) = Inr (dec2 (snd kv))"
    proof
      fix kv assume "kv \<in> set ?ms1"
      then obtain x where "snd kv = jsonEncode lib x" by auto
      with stable show "jsonDecode lib (snd kv) = Inr (dec2 (snd kv))"
        by (simp add: dec2_def)
    qed
    have decu2: "\<forall>kv \<in> set u. jsonDecode lib (snd kv) = Inr (dec2 (snd kv))"
      using decu dec2_Inr by blast
    let ?ms2 = "map (\<lambda>(k, x). (k, jsonEncode lib x)) (sort_key fst
       (fold (\<lambda>(k, x) m. AList.update k x m)
          (fold (\<lambda>(k, x) m. AList.update k x m) (map (\<lambda>(k, v). (k, dec2 v)) u) [])
          (fold (\<lambda>(k, x) m. AList.update k x m) (map (\<lambda>(k, v). (k, dec2 v)) ?ms1) [])))"
    have second: "mergeResponses lib (Some (JObject ?ms1)) uaResponse = Inr (Some (JObject ?ms2))"
      unfolding uagt by (rule mergeResponses_objects [OF dec1 decu2])
    have eq: "matchRequestContext lib (before @ p # rest) manifest ctx = Inr (Some (JObject ?ms2))"
      by (simp add: seq first second)
    have ms2: "map_of ?ms2 k =
        (case member u k of
           Some v \<Rightarrow> Some (jsonEncode lib (dec2 v))
         | None \<Rightarrow> map_option (\<lambda>v. jsonEncode lib (dec2 v)) (member ?ms1 k))" for k
      by (rule map_of_merged)
    have u_dec: "member u k = Some v \<Longrightarrow> dec2 v = dec v" for k v
    proof -
      assume "member u k = Some v"
      then have "(k, v) \<in> set u" by (rule member_in_set)
      with decu have "jsonDecode lib v = Inr (dec v)" by force
      then show ?thesis by (simp add: dec2_def)
    qed
    have "map_of ?ms2 k =
                  (case member u k of
                     Some v \<Rightarrow> Some (jsonEncode lib (dec v))
                   | None \<Rightarrow>
                       (case member c k of
                          Some v \<Rightarrow> Some (jsonEncode lib (dec v))
                        | None \<Rightarrow> map_option (\<lambda>v. jsonEncode lib (dec v)) (member d k)))" for k
    proof (cases "member u k")
      case (Some v)
      show ?thesis
        unfolding ms2 Some using u_dec [OF Some] by simp
    next
      case None
      have "map_of ?ms2 k = map_option (\<lambda>v. jsonEncode lib (dec2 v)) (map_of ?ms1 k)"
        unfolding ms2 None member_distinct [OF dist1] by simp
      also have "\<dots> = (case member c k of
                          Some v \<Rightarrow> Some (jsonEncode lib (dec v))
                        | None \<Rightarrow> map_option (\<lambda>v. jsonEncode lib (dec v)) (member d k))"
        unfolding ms1 by (simp add: dec2_enc option.map_comp comp_def split: option.splits)
      finally show ?thesis by (simp add: None)
    qed
    with eq show ?thesis by blast
  qed
  from seq obj show ?thesis by (intro conjI allI impI) (simp, blast)
qed

theorem country_merged_before_user_agent_witness:
  "matchRequestContext exampleLibrary ([''bot2''] @ ''bot'' # []) botManifest robotContext =
     Inr (Some (JObject [(''greeting'', JString ''hello bot''), (''lang'', JString ''de'')])) \<and>
   (\<exists>ms. matchRequestContext exampleLibrary ([] @ ''bot'' # [''bot2'']) botManifest
            germanBotContext = Inr (Some (JObject ms)) \<and>
      map_of ms ''greeting'' = Some (JString ''hello bot'') \<and>
      map_of ms ''lang'' = Some (JString ''de''))"
proof -
  let ?bot = "Some (JObject [(''greeting'', JString ''hello bot'')])"
  let ?de = "Some (JObject [(''greeting'', JString ''hallo''), (''lang'', JString ''de'')])"
  have h4: "\<forall>q \<in> set [''bot2'']. UserAgentCases botManifest q = None \<or>
      \<not> contains (UserAgent robotContext) q"
    by (simp add: robotContext_def)
  have h4': "\<forall>q \<in> set []. UserAgentCases botManifest q = None \<or>
      \<not> contains (UserAgent germanBotContext) q"
    by simp
  have c1: "Country robotContext \<noteq> []" "UserAgent robotContext \<noteq> []"
    "contains (UserAgent robotContext) ''bot''"
    "CountryCases botManifest (Country robotContext) = Some ?de"
    by (simp_all add: robotContext_def botManifest_def)
  have c2: "Country germanBotContext \<noteq> []" "UserAgent germanBotContext \<noteq> []"
    "contains (UserAgent germanBotContext) ''bot''"
    "CountryCases botManifest (Country germanBotContext) = Some ?de"
    by (simp_all add: germanBotContext_def botManifest_def)
  have bot: "UserAgentCases botManifest ''bot'' = Some ?bot"
    by (simp add: botManifest_def)
  note a = country_merged_before_user_agent
    [OF c1(1) c1(4) c1(2) h4 bot c1(3), of exampleLibrary "[]"]
  note b = country_merged_before_user_agent
    [OF c2(1) c2(4) c2(2) h4' bot c2(3), of exampleLibrary "[''bot2'']"]
  from a have first: "matchRequestContext exampleLibrary ([''bot2''] @ ''bot'' # []) botManifest
      robotContext =
     Inr (Some (JObject [(''greeting'', JString ''hello bot''), (''lang'', JString ''de'')]))"
    by (simp add: botManifest_def mergeResponses_def)
  have prem: "DefaultResponse botManifest =
        Some (JObject [(''greeting'', JString ''hello''), (''lang'', JString ''en'')]) \<and>
      ?de = Some (JObject [(''greeting'', JString ''hallo''), (''lang'', JString ''de'')]) \<and>
      ?bot = Some (JObject [(''greeting'', JString ''hello bot'')]) \<and>
      (\<forall>kv \<in> set [(''greeting'', JString ''hello''), (''lang'', JString ''en'')] \<union>
          set [(''greeting'', JString ''hallo''), (''lang'', JString ''de'')] \<union>
          set [(''greeting'', JString ''hello bot'')].
         jsonDecode exampleLibrary (snd kv) = Inr (snd kv)) \<and>
      (\<forall>x. jsonDecode exampleLibrary (jsonEncode exampleLibrary x) = Inr x)"
    by (simp add: botManifest_def)
  note keys = b [THEN conjunct2, rule_format,
      of "[(''greeting'', JString ''hello''), (''lang'', JString ''en'')]"
         "[(''greeting'', JString ''hallo''), (''lang'', JString ''de'')]"
         "[(''greeting'', JString ''hello bot'')]" "\<lambda>v. v", OF prem]
  from keys obtain ms where
    res: "matchRequestContext exampleLibrary ([] @ ''bot'' # [''bot2'']) botManifest
            germanBotContext = Inr (Some (JObject ms))"
    and vals: "\<forall>k. map_of ms k =
        (case member [(''greeting'', JString ''hello bot'')] k of
           Some v \<Rightarrow> Some (jsonEncode exampleLibrary v)
         | None \<Rightarrow>
             (case member [(''greeting'', JString ''hallo''), (''lang'', JString ''de'')] k of
                Some v \<Rightarrow> Some (jsonEncode exampleLibrary v)
              | None \<Rightarrow> map_option (\<lambda>v. jsonEncode exampleLibrary v)
                  (member [(''greeting'', JString ''hello''), (''lang'', JString ''en'')] k)))"
    by blast
  have "map_of ms ''greeting'' = Some (JString ''hello bot'')"
    using vals [rule_format, of "''greeting''"] by (simp add: member_def)
  moreover have "map_of ms ''lang'' = Some (JString ''de'')"
    using vals [rule_format, of "''lang''"] by (simp add: member_def)
  ultimately have "\<exists>ms. matchRequestContext exampleLibrary ([] @ ''bot'' # [''bot2'']) botManifest
            germanBotContext = Inr (Some (JObject ms)) \<and>
      map_of ms ''greeting'' = Some (JString ''hello bot'') \<and>
      map_of ms ''lang'' = Some (JString ''de'')"
    using res by blast
  with first show ?thesis by blast
qed

section \<open>Loading a service without a record\<close>

text \<open>
  Claim C7. When the cache has no entry for the service name and its file does not exist,
  \<^verbatim>\<open>LoadManifest\<close> returns the made-up manifest, whose default response is a document with
  one member and whose two case maps are empty, and leaves the manager, so also its
  cache, as it was. When a record is then written to the file, the next load returns what
  the record decodes to, and caches it.
\<close>

theorem LoadManifest_absent_not_cached:
  assumes "manifests m serviceURL = None"
    and "node fs (manifestPath m serviceURL) = None"
    and "\<not> readFails fs (manifestPath m serviceURL)"
  shows "LoadManifest lib fs m serviceURL = (Inr defaultManifest, m) \<and>
         DefaultResponse (defaultManifest :: 't ServiceManifest) =
           Some (JObject [(''message'', JString ''No manifest available for this service'')]) \<and>
         UserAgentCases (defaultManifest :: 't ServiceManifest) = Map.empty \<and>
         CountryCases (defaultManifest :: 't ServiceManifest) = Map.empty \<and>
         (\<forall>data fs' manifest.
            WriteFile fs (manifestPath m serviceURL) data = Inr fs' \<and>
            jsonUnmarshalManifest lib data = Inr manifest \<longrightarrow>
            LoadManifest lib fs' (snd (LoadManifest lib fs m serviceURL)) serviceURL =
              (Inr manifest, m\<lparr>manifests := (manifests m)(serviceURL \<mapsto> manifest)\<rparr>))"
  using assms
  by (auto simp: LoadManifest_def ReadFile_def WriteFile_def defaultManifest_def manifestPath_def
      split: if_splits)

theorem LoadManifest_absent_not_cached_witness:
  "LoadManifest exampleLibrary emptyFS (NewManifestManager ''manifest'') ''example.org'' =
     (Inr defaultManifest, NewManifestManager ''manifest'') \<and>
   (\<exists>fs'. WriteFile emptyFS (manifestPath (NewManifestManager ''manifest'' :: unit ManifestManager) ''example.org'') ''bot'' = Inr fs' \<and>
     LoadManifest exampleLibrary fs'
       (snd (LoadManifest exampleLibrary emptyFS (NewManifestManager ''manifest'') ''example.org''))
       ''example.org'' =
     (Inr botManifest,
      (NewManifestManager ''manifest'')\<lparr>manifests := [''example.org'' \<mapsto> botManifest]\<rparr>))"
proof -
  let ?m = "NewManifestManager ''manifest'' :: unit ManifestManager"
  let ?p = "manifestPath ?m ''example.org''"
  have h1: "manifests ?m ''example.org'' = None" by (simp add: NewManifestManager_def)
  have h2: "node emptyFS ?p = None" by (simp add: emptyFS_def)
  have h3: "\<not> readFails emptyFS ?p" by (simp add: emptyFS_def)
  have w: "WriteFile emptyFS ?p ''bot'' = Inr (emptyFS\<lparr>node := [?p \<mapsto> ''bot'']\<rparr>)"
    by (simp add: WriteFile_def emptyFS_def)
  have u: "jsonUnmarshalManifest exampleLibrary ''bot'' = Inr botManifest"
    by (simp add: exampleLibrary_def)
  note main = LoadManifest_absent_not_cached [OF h1 h2 h3, of exampleLibrary]
  from main have first: "LoadManifest exampleLibrary emptyFS ?m ''example.org'' =
      (Inr defaultManifest, ?m)"
    by blast
  from main w u have "LoadManifest exampleLibrary (emptyFS\<lparr>node := [?p \<mapsto> ''bot'']\<rparr>)
      (snd (LoadManifest exampleLibrary emptyFS ?m ''example.org'')) ''example.org'' =
      (Inr botManifest, ?m\<lparr>manifests := (manifests ?m)(''example.org'' \<mapsto> botManifest)\<rparr>)"
    by blast
  with first w show ?thesis by (simp add: NewManifestManager_def)
qed

section \<open>A failed update\<close>

text \<open>
  Claim C8. When the serialization of the manifest fails, or the write of the file fails,
  \<^verbatim>\<open>UpdateManifest\<close> returns that error and the manager is unchanged; whenever it returns
  an error the cache is the one from before the call.
\<close>

theorem UpdateManifest_error_keeps_cache:
  "(\<forall>err. jsonMarshalIndent lib manifest = Inl err \<longrightarrow>
      UpdateManifest lib fs m serviceURL manifest = (Some err, m, fs)) \<and>
   (\<forall>data err. jsonMarshalIndent lib manifest = Inr data \<and>
      WriteFile fs (manifestPath m serviceURL) data = Inl err \<longrightarrow>
      UpdateManifest lib fs m serviceURL manifest = (Some err, m, fs)) \<and>
   (\<forall>err m' fs'. UpdateManifest lib fs m serviceURL manifest = (Some err, m', fs') \<longrightarrow>
      m' = m \<and> manifests m' serviceURL = manifests m serviceURL)"
  by (auto simp: UpdateManifest_def split: sum.splits)

theorem UpdateManifest_error_keeps_cache_witness:
  "UpdateManifest exampleLibrary readOnlyFS
     ((NewManifestManager ''manifest'')\<lparr>manifests := [''example.org'' \<mapsto> botManifest]\<rparr>)
     ''example.org'' browserManifest =
     (Some ErrIO,
      (NewManifestManager ''manifest'')\<lparr>manifests := [''example.org'' \<mapsto> botManifest]\<rparr>,
      readOnlyFS) \<and>
   UpdateManifest exampleLibrary emptyFS
     ((NewManifestManager ''manifest'')\<lparr>manifests := [''example.org'' \<mapsto> botManifest]\<rparr>)
     ''example.org'' (browserManifest\<lparr>DefaultResponse := None\<rparr>) =
     (Some MarshalError,
      (NewManifestManager ''manifest'')\<lparr>manifests := [''example.org'' \<mapsto> botManifest]\<rparr>,
      emptyFS)"
proof -
  let ?m = "(NewManifestManager ''manifest'')\<lparr>manifests := [''example.org'' \<mapsto> botManifest]\<rparr>"
  have a: "jsonMarshalIndent exampleLibrary browserManifest = Inr ''browser''"
    by (simp add: exampleLibrary_def browserManifest_def botManifest_def)
  have b: "WriteFile readOnlyFS (manifestPath ?m ''example.org'') ''browser'' = Inl ErrIO"
    by (simp add: WriteFile_def readOnlyFS_def)
  have c: "jsonMarshalIndent exampleLibrary (browserManifest\<lparr>DefaultResponse := None\<rparr>) =
      Inl MarshalError"
    by (simp add: exampleLibrary_def browserManifest_def botManifest_def)
  from UpdateManifest_error_keeps_cache
    [of exampleLibrary browserManifest readOnlyFS ?m "''example.org''"] a b
  have 1: "UpdateManifest exampleLibrary readOnlyFS ?m ''example.org'' browserManifest =
      (Some ErrIO, ?m, readOnlyFS)"
    by blast
  from UpdateManifest_error_keeps_cache
    [of exampleLibrary "browserManifest\<lparr>DefaultResponse := None\<rparr>" emptyFS ?m "''example.org''"] c
  have 2: "UpdateManifest exampleLibrary emptyFS ?m ''example.org''
      (browserManifest\<lparr>DefaultResponse := None\<rparr>) = (Some MarshalError, ?m, emptyFS)"
    by blast
  from 1 2 show ?thesis by simp
qed

section \<open>No template for the negotiated type\<close>

text \<open>
  Claim C9. When the manifest loads, the negotiated type is not \<^verbatim>\<open>application/json\<close>, no
  template of the manifest has the negotiated type, and the resolution gives a document,
  the entry point returns the string of that document with the content type
  \<^verbatim>\<open>text/plain\<close>, and no error.
\<close>

theorem GetResponseForRequest_no_template_fallback:
  assumes "LoadManifest lib fs m serviceURL = (Inr manifest, m1)"
    and "determineResponseType (AcceptTypes ctx) \<noteq> ''application/json''"
    and "\<forall>tmpl \<in> set (Templates manifest).
           ContentType tmpl \<noteq> determineResponseType (AcceptTypes ctx)"
    and "matchRequestContext lib order manifest ctx = Inr rawResponse"
  shows "GetResponseForRequest lib order fs m serviceURL ctx =
           (Inr (StringOfRaw rawResponse, ''text/plain''),
            ctx\<lparr>PreferredType := determineResponseType (AcceptTypes ctx)\<rparr>, m1)"
proof -
  have "findTemplate (determineResponseType (AcceptTypes ctx)) (Templates manifest) 0 = None"
    using assms(3) by (simp add: findTemplate_None)
  with assms(1,2,4) show ?thesis
    by (simp add: GetResponseForRequest_def Let_def matchRequestContext_PreferredType)
qed

theorem GetResponseForRequest_no_template_fallback_witness:
  "GetResponseForRequest exampleLibrary [] emptyFS
     ((NewManifestManager ''manifest'')\<lparr>manifests := [''example.org'' \<mapsto> htmlManifest]\<rparr>)
     ''example.org'' plainContext =
   (Inr (StringOfRaw (Some (JObject [(''title'', JString ''usernet'')])), ''text/plain''),
    plainContext\<lparr>PreferredType := ''text/plain''\<rparr>,
    (NewManifestManager ''manifest'')\<lparr>manifests := [''example.org'' \<mapsto> htmlManifest]\<rparr>)"
proof -
  let ?m = "(NewManifestManager ''manifest'')\<lparr>manifests := [''example.org'' \<mapsto> htmlManifest]\<rparr>"
  have t: "determineResponseType (AcceptTypes plainContext) = ''text/plain''"
    by (simp add: plainContext_def determineResponseType_def)
  have h1: "LoadManifest exampleLibrary emptyFS ?m ''example.org'' = (Inr htmlManifest, ?m)"
    by (simp add: LoadManifest_def)
  have h2: "determineResponseType (AcceptTypes plainContext) \<noteq> ''application/json''"
    by (simp add: t)
  have h3: "\<forall>tmpl \<in> set (Templates htmlManifest).
           ContentType tmpl \<noteq> determineResponseType (AcceptTypes plainContext)"
    by (simp add: t htmlManifest_def)
  have h4: "matchRequestContext exampleLibrary [] htmlManifest plainContext =
      Inr (Some (JObject [(''title'', JString ''usernet'')]))"
    by (simp add: matchRequestContext_def htmlManifest_def plainContext_def)
  from GetResponseForRequest_no_template_fallback [OF h1 h2 h3 h4] t
  show ?thesis by simp
qed

section \<open>Two names, one record\<close>

text \<open>
  Claim C10. Let two different service names have the same sanitized file name, and let
  the cache hold a manifest for the first. An update of the second, whatever its outcome,
  leaves the cached entry of the first: a load of the first still returns the old
  manifest. The two names share their path, and after a successful update the file there
  holds the serialization of the new manifest, which is cached under the second name.
\<close>

theorem UpdateManifest_colliding_name_keeps_cache_entry:
  assumes "s1 \<noteq> s2"
    and "sanitizeFilename s1 = sanitizeFilename s2"
    and "manifests m s1 = Some old"
    and "UpdateManifest lib fs m s2 r = (err, m', fs')"
  shows "manifests m' s1 = Some old \<and>
         LoadManifest lib fs' m' s1 = (Inr old, m') \<and>
         manifestPath m' s1 = manifestPath m' s2 \<and>
         (err = None \<longrightarrow>
            manifests m' s2 = Some r \<and>
            (\<exists>data. jsonMarshalIndent lib r = Inr data \<and>
               node fs' (manifestPath m' s1) = Some data))"
  using assms
  by (auto simp: UpdateManifest_def LoadManifest_def WriteFile_def manifestPath_def
      split: sum.splits if_splits)

text \<open>
  The names \<^verbatim>\<open>http://x\<close> and \<^verbatim>\<open>https://x\<close>: load the first from its record, update the
  second, load the first again.
\<close>

theorem UpdateManifest_colliding_name_keeps_cache_entry_witness:
  "sanitizeFilename ''http://x'' = sanitizeFilename ''https://x'' \<and>
   (\<exists>fs0 m1 m2 fs2.
      WriteFile emptyFS (''manifest'', ''x.json'') ''bot'' = Inr fs0 \<and>
      LoadManifest exampleLibrary fs0 (NewManifestManager ''manifest'') ''http://x'' =
        (Inr botManifest, m1) \<and>
      manifests m1 ''http://x'' = Some botManifest \<and>
      UpdateManifest exampleLibrary fs0 m1 ''https://x'' browserManifest = (None, m2, fs2) \<and>
      node fs2 (manifestPath m2 ''http://x'') = Some ''browser'' \<and>
      manifests m2 ''https://x'' = Some browserManifest \<and>
      LoadManifest exampleLibrary fs2 m2 ''http://x'' = (Inr botManifest, m2))"
proof -
  let ?fs0 = "emptyFS\<lparr>node := [(''manifest'', ''x.json'') \<mapsto> ''bot'']\<rparr>"
  let ?m0 = "NewManifestManager ''manifest'' :: unit ManifestManager"
  let ?m1 = "?m0\<lparr>manifests := [''http://x'' \<mapsto> botManifest]\<rparr>"
  let ?m2 = "?m1\<lparr>manifests := [''http://x'' \<mapsto> botManifest, ''https://x'' \<mapsto> browserManifest]\<rparr>"
  let ?fs2 = "?fs0\<lparr>node := [(''manifest'', ''x.json'') \<mapsto> ''browser'']\<rparr>"
  have san: "sanitizeFilename ''http://x'' = sanitizeFilename ''https://x''"
    by (simp add: sanitizeFilename_def TrimPrefix_def ReplaceAll_def)
  have sx: "sanitizeFilename ''http://x'' = ''x''"
    by (simp add: sanitizeFilename_def TrimPrefix_def ReplaceAll_def)
  have w: "WriteFile emptyFS (''manifest'', ''x.json'') ''bot'' = Inr ?fs0"
    by (simp add: WriteFile_def emptyFS_def)
  have l: "LoadManifest exampleLibrary ?fs0 ?m0 ''http://x'' = (Inr botManifest, ?m1)"
    by (simp add: LoadManifest_def NewManifestManager_def manifestPath_def sx ReadFile_def
        emptyFS_def exampleLibrary_def)
  have c: "manifests ?m1 ''http://x'' = Some botManifest" by simp
  have u: "UpdateManifest exampleLibrary ?fs0 ?m1 ''https://x'' browserManifest = (None, ?m2, ?fs2)"
    by (simp add: UpdateManifest_def NewManifestManager_def manifestPath_def sx san [symmetric]
        WriteFile_def emptyFS_def exampleLibrary_def browserManifest_def botManifest_def)
  have ne: "''http://x'' \<noteq> ''https://x''" by simp
  have a: "jsonMarshalIndent exampleLibrary browserManifest = Inr ''browser''"
    by (simp add: exampleLibrary_def browserManifest_def botManifest_def)
  note main = UpdateManifest_colliding_name_keeps_cache_entry [OF ne san c u]
  from main have l2: "LoadManifest exampleLibrary ?fs2 ?m2 ''http://x'' = (Inr botManifest, ?m2)"
    by blast
  from main obtain data where "jsonMarshalIndent exampleLibrary browserManifest = Inr data"
    and "node ?fs2 (manifestPath ?m2 ''http://x'') = Some data"
    by blast
  with a have n2: "node ?fs2 (manifestPath ?m2 ''http://x'') = Some ''browser''"
    by simp
  from main have c2: "manifests ?m2 ''https://x'' = Some browserManifest"
    by blast
  from san w l c u l2 n2 c2 show ?thesis by blast
qed

end
